theory Spec2Isabelle
  imports Complex_Main
begin

section \<open>Python numbers\<close>

subsection \<open>Binary64 rounding\<close>

text \<open>
  Python's \<open>float\<close> is IEEE-754 binary64. A finite float is modelled by the rational
  number it denotes; every arithmetic operation computes the exact rational result and
  rounds it to the nearest representable value, ties to even (\<open>fl\<close>). The significand
  has 53 bits; below \<open>2 powi (- 1022)\<close> the spacing stays that of the lowest binade
  (subnormal numbers). Infinities, NaN and the \<open>OverflowError\<close> of results beyond
  the binary64 range are not part of the model.
\<close>

definition round_half_even :: "rat \<Rightarrow> int" where
  "round_half_even q =
     (let f = \<lfloor>q\<rfloor>; d = q - of_int f
      in if d < 1 / 2 then f
         else if 1 / 2 < d then f + 1
         else if even f then f else f + 1)"

function nbits :: "int \<Rightarrow> int" where
  "nbits n = (if n \<le> 0 then 0 else 1 + nbits (n div 2))"
  by pat_completeness auto
termination
  by (relation "measure nat") auto

declare nbits.simps [simp del]

definition ilog2 :: "rat \<Rightarrow> int" where
  "ilog2 q =
     (let (a, b) = quotient_of \<bar>q\<bar>;
          k = nbits a - nbits b
      in if 2 powi k \<le> \<bar>q\<bar> then k else k - 1)"

definition fexp :: "rat \<Rightarrow> int" where
  "fexp q = max (ilog2 q) (- 1022) - 52"

definition fl :: "rat \<Rightarrow> rat" where
  "fl q =
     (if q = 0 then 0
      else let u = 2 powi (fexp q)
           in of_int (round_half_even (q / u)) * u)"

subsection \<open>Properties of the rounding\<close>

lemma nbits_nonneg: "0 \<le> nbits n"
  by (induction n rule: nbits.induct) (subst nbits.simps, simp)

lemma nbits_pos: "0 < n \<Longrightarrow> 1 \<le> nbits n"
  using nbits_nonneg [of "n div 2"] by (subst nbits.simps) simp

lemma nbits_bounds:
  "0 < n \<Longrightarrow> (2::int) ^ nat (nbits n - 1) \<le> n \<and> n < 2 ^ nat (nbits n)"
proof (induction n rule: nbits.induct)
  case (1 n)
  show ?case
  proof (cases "n = 1")
    case True
    then show ?thesis by (simp add: nbits.simps)
  next
    case False
    with "1.prems" have h: "0 < n div 2" by simp
    from "1.IH" "1.prems" h
    have ih: "(2::int) ^ nat (nbits (n div 2) - 1) \<le> n div 2" "n div 2 < 2 ^ nat (nbits (n div 2))"
      by simp_all
    have p: "1 \<le> nbits (n div 2)" using h by (rule nbits_pos)
    have e: "nbits n = 1 + nbits (n div 2)" using "1.prems" by (subst nbits.simps) simp
    have s1: "nat (nbits n - 1) = Suc (nat (nbits (n div 2) - 1))" using e p by simp
    have s2: "nat (nbits n) = Suc (nat (nbits (n div 2)))" using e p by simp
    show ?thesis unfolding s1 s2 using ih by simp presburger
  qed
qed

lemma powi_nat: "0 \<le> k \<Longrightarrow> (2::rat) powi k = 2 ^ nat k"
  by (simp add: power_int_def)

lemma nbits_bounds_rat:
  assumes "0 < n"
  shows "(2::rat) powi (nbits n - 1) \<le> of_int n" "of_int n < (2::rat) powi (nbits n)"
proof -
  from nbits_bounds [OF assms]
  have a: "(2::int) ^ nat (nbits n - 1) \<le> n" and b: "n < 2 ^ nat (nbits n)" by simp_all
  have p: "1 \<le> nbits n" using assms by (rule nbits_pos)
  have "(of_int ((2::int) ^ nat (nbits n - 1)) :: rat) \<le> of_int n" using a by (simp only: of_int_le_iff)
  then show "(2::rat) powi (nbits n - 1) \<le> of_int n" using p by (simp add: powi_nat)
  have "(of_int n :: rat) < of_int ((2::int) ^ nat (nbits n))" using b by (simp only: of_int_less_iff)
  then show "of_int n < (2::rat) powi (nbits n)" using p by (simp add: powi_nat)
qed

lemma ilog2_bounds:
  assumes "q \<noteq> 0"
  shows "2 powi (ilog2 q) \<le> \<bar>q\<bar>" "\<bar>q\<bar> < 2 powi (ilog2 q + 1)"
proof -
  obtain a b where ab: "quotient_of \<bar>q\<bar> = (a, b)" by (cases "quotient_of \<bar>q\<bar>")
  have bpos: "0 < b" using ab by (rule quotient_of_denom_pos)
  have qeq: "\<bar>q\<bar> = of_int a / of_int b" using ab by (rule quotient_of_div)
  have apos: "0 < a"
  proof -
    have "0 < \<bar>q\<bar>" using assms by simp
    then have "0 < (of_int a :: rat) / of_int b" using qeq by simp
    then show ?thesis using bpos by (simp add: zero_less_divide_iff)
  qed
  define k where "k = nbits a - nbits b"
  have il: "ilog2 q = (if 2 powi k \<le> \<bar>q\<bar> then k else k - 1)"
    by (simp add: ilog2_def ab k_def Let_def)
  have bp: "(0::rat) < of_int b" using bpos by simp
  have up: "\<bar>q\<bar> < 2 powi (k + 1)"
  proof -
    have "of_int a < (2::rat) powi (nbits a)" using apos by (rule nbits_bounds_rat)
    moreover have "(2::rat) powi (nbits b - 1) \<le> of_int b" using bpos by (rule nbits_bounds_rat)
    moreover have "(2::rat) powi (nbits a) = 2 powi (k + 1) * 2 powi (nbits b - 1)"
      by (simp add: k_def power_int_add [symmetric])
    moreover have "(2::rat) powi (k + 1) * 2 powi (nbits b - 1) \<le> 2 powi (k + 1) * of_int b"
      using \<open>(2::rat) powi (nbits b - 1) \<le> of_int b\<close> by (intro mult_left_mono) simp_all
    ultimately have "of_int a < 2 powi (k + 1) * (of_int b :: rat)"
      by linarith
    then show ?thesis using bp by (simp add: qeq pos_divide_less_eq)
  qed
  have lo: "2 powi (k - 1) \<le> \<bar>q\<bar>"
  proof -
    have "(2::rat) powi (nbits a - 1) \<le> of_int a" using apos by (rule nbits_bounds_rat)
    moreover have "of_int b < (2::rat) powi (nbits b)" using bpos by (rule nbits_bounds_rat)
    moreover have "(2::rat) powi (nbits a - 1) = 2 powi (k - 1) * 2 powi (nbits b)"
      by (simp add: k_def power_int_add [symmetric])
    moreover have "(2::rat) powi (k - 1) * of_int b \<le> 2 powi (k - 1) * 2 powi (nbits b)"
      using \<open>of_int b < (2::rat) powi (nbits b)\<close> by (intro mult_left_mono) simp_all
    ultimately have "2 powi (k - 1) * (of_int b :: rat) \<le> of_int a"
      by linarith
    then show ?thesis using bp by (simp add: qeq pos_le_divide_eq)
  qed
  show "2 powi (ilog2 q) \<le> \<bar>q\<bar>" using lo by (simp add: il)
  show "\<bar>q\<bar> < 2 powi (ilog2 q + 1)" using up by (auto simp add: il not_le)
qed

lemma rhe_char:
  "\<bar>of_int (round_half_even x) - x\<bar> < 1 / 2 \<or>
   (\<bar>of_int (round_half_even x) - x\<bar> = 1 / 2 \<and> even (round_half_even x))"
proof -
  define f where "f = \<lfloor>x\<rfloor>"
  have a: "of_int f \<le> x" and b: "x < of_int f + 1" unfolding f_def by linarith+
  consider "x - of_int f < 1 / 2" | "1 / 2 < x - of_int f" | "x - of_int f = 1 / 2" by linarith
  then show ?thesis
  proof cases
    case 1
    then have "round_half_even x = f" by (simp add: round_half_even_def f_def Let_def)
    then show ?thesis using a 1 by simp
  next
    case 2
    then have "round_half_even x = f + 1" by (simp add: round_half_even_def f_def Let_def)
    then show ?thesis using b 2 by simp
  next
    case 3
    show ?thesis
    proof (cases "even f")
      case True
      then have "round_half_even x = f" using 3 by (simp add: round_half_even_def f_def Let_def)
      then show ?thesis using 3 True by simp
    next
      case False
      then have "round_half_even x = f + 1" using 3 by (simp add: round_half_even_def f_def Let_def)
      then show ?thesis using 3 False by simp
    qed
  qed
qed

lemma rhe_unique:
  assumes "\<bar>of_int r - x\<bar> < 1 / 2 \<or> (\<bar>of_int r - x\<bar> = 1 / 2 \<and> even r)"
  shows "round_half_even x = r"
proof -
  let ?s = "round_half_even x"
  have c: "\<bar>of_int ?s - x\<bar> < 1 / 2 \<or> (\<bar>of_int ?s - x\<bar> = 1 / 2 \<and> even ?s)" by (rule rhe_char)
  have d: "\<bar>(of_int ?s :: rat) - of_int r\<bar> \<le> 1" using assms c by linarith
  then have d': "\<bar>?s - r\<bar> \<le> 1" by (metis of_int_diff of_int_abs of_int_le_iff of_int_1)
  show ?thesis
  proof (rule ccontr)
    assume ne: "?s \<noteq> r"
    with d' have e: "?s = r + 1 \<or> ?s = r - 1" by linarith
    then have par: "even ?s \<longleftrightarrow> odd r" by auto
    from e have "\<bar>(of_int ?s :: rat) - of_int r\<bar> = 1" by auto
    then have "\<bar>of_int ?s - x\<bar> = 1 / 2 \<and> \<bar>of_int r - x\<bar> = 1 / 2" using assms c by linarith
    then show False using assms c par by auto
  qed
qed

lemma rhe_error: "\<bar>of_int (round_half_even x) - x\<bar> \<le> 1 / 2"
  using rhe_char [of x] by linarith

lemma rhe_of_int [simp]: "round_half_even (of_int n) = n"
  by (rule rhe_unique) simp



lemma ilog2_minus [simp]: "ilog2 (- q) = ilog2 q"
  by (simp add: ilog2_def)

lemma fexp_minus [simp]: "fexp (- q) = fexp q"
  by (simp add: fexp_def)

lemma fl_0 [simp]: "fl 0 = 0"
  by (simp add: fl_def)


lemma p2_less_iff: "(2::rat) powi a < 2 powi b \<longleftrightarrow> a < b"
proof
  assume h: "(2::rat) powi a < 2 powi b"
  show "a < b"
  proof (rule ccontr)
    assume "\<not> a < b"
    then have "b \<le> a" by simp
    then have "(2::rat) powi b \<le> 2 powi a" by (rule power_int_increasing) simp
    with h show False by simp
  qed
next
  assume "a < b"
  then show "(2::rat) powi a < 2 powi b" by (rule power_int_strict_increasing) simp
qed

lemma p2_le_iff: "(2::rat) powi a \<le> 2 powi b \<longleftrightarrow> a \<le> b"
  using p2_less_iff [of b a] by (simp add: not_less [symmetric])

lemma ilog2_unique:
  assumes "2 powi e \<le> \<bar>q\<bar>" "\<bar>q\<bar> < 2 powi (e + 1)"
  shows "ilog2 q = e"
proof -
  have "(0::rat) < 2 powi e" by (rule zero_less_power_int) simp
  with assms(1) have "0 < \<bar>q\<bar>" by linarith
  then have ne: "q \<noteq> 0" by simp
  have a: "(2::rat) powi (ilog2 q) < 2 powi (e + 1)"
    using ilog2_bounds(1) [OF ne] assms(2) by linarith
  have b: "(2::rat) powi e < 2 powi (ilog2 q + 1)"
    using ilog2_bounds(2) [OF ne] assms(1) by linarith
  have "ilog2 q < e + 1" using a by (simp add: p2_less_iff)
  moreover have "e < ilog2 q + 1" using b by (simp add: p2_less_iff)
  ultimately show ?thesis by simp
qed



lemma fl_ulp_error:
  "\<bar>fl q - q\<bar> \<le> 2 powi (fexp q) / 2"
proof (cases "q = 0")
  case True
  then show ?thesis by simp
next
  case False
  define u :: rat where "u = 2 powi (fexp q)"
  have up: "0 < u" by (simp add: u_def)
  have "fl q - q = (of_int (round_half_even (q / u)) - q / u) * u"
    using False up by (simp add: fl_def u_def Let_def algebra_simps)
  then have "\<bar>fl q - q\<bar> = \<bar>of_int (round_half_even (q / u)) - q / u\<bar> * u"
    using up by (simp add: abs_mult)
  also have "\<dots> \<le> (1 / 2) * u"
    using rhe_error [of "q / u"] up by (intro mult_right_mono) simp_all
  finally show ?thesis by (simp add: u_def)
qed

lemma fl_rel_error:
  assumes "- 1022 \<le> ilog2 q" "q \<noteq> 0"
  shows "\<bar>fl q - q\<bar> \<le> \<bar>q\<bar> / 2 ^ 53"
proof -
  have fe: "fexp q = ilog2 q - 52" using assms(1) by (simp add: fexp_def)
  have "(2::rat) powi (fexp q) = 2 powi (ilog2 q) / 2 ^ 52"
    by (simp add: fe power_int_diff)
  also have "\<dots> \<le> \<bar>q\<bar> / 2 ^ 52"
    using ilog2_bounds(1) [OF assms(2)] by (simp add: divide_right_mono)
  finally have "(2::rat) powi (fexp q) / 2 \<le> \<bar>q\<bar> / 2 ^ 52 / 2" by simp
  then show ?thesis using fl_ulp_error [of q] by simp
qed

lemma fl_exact:
  assumes "q = of_int m * 2 powi k" "\<bar>m\<bar> \<le> 2 ^ 53" "- 1074 \<le> k"
  shows "fl q = q"
proof (cases "q = 0")
  case True
  then show ?thesis by simp
next
  case False
  then have mne: "m \<noteq> 0" using assms(1) by auto
  have "\<bar>q\<bar> = of_int \<bar>m\<bar> * 2 powi k" by (simp add: assms(1) abs_mult)
  also have "\<dots> \<le> of_int (2 ^ 53) * 2 powi k"
    using assms(2) by (intro mult_right_mono) (simp_all only: of_int_le_iff zero_le_power_int zero_le_numeral)
  finally have qle: "\<bar>q\<bar> \<le> 2 powi (k + 53)" by (simp add: power_int_add)
  have "(2::rat) powi (ilog2 q) \<le> 2 powi (k + 53)"
    using ilog2_bounds(1) [OF False] qle by linarith
  then have il: "ilog2 q \<le> k + 53" by (simp add: p2_le_iff)
  show ?thesis
  proof (cases "\<bar>m\<bar> = 2 ^ 53")
    case True
    then have qeq: "\<bar>q\<bar> = 2 powi (k + 53)"
      using \<open>\<bar>q\<bar> = of_int \<bar>m\<bar> * 2 powi k\<close> by (simp add: power_int_add)
    have "ilog2 q = k + 53" by (rule ilog2_unique) (simp_all add: qeq p2_less_iff)
    then have fe: "fexp q = k + 1" using assms(3) by (simp add: fexp_def)
    have flq: "fl q = of_int (round_half_even (q / 2 powi (k + 1))) * 2 powi (k + 1)"
      using False by (simp add: fl_def Let_def fe)
    have "q / 2 powi (k + 1) = of_int m * (2 powi k / 2 powi (k + 1))"
      by (simp add: assms(1))
    also have "(2::rat) powi k / 2 powi (k + 1) = 1 / 2" by (simp add: power_int_add)
    finally have "q / 2 powi (k + 1) = of_int m / 2" by simp
    also have "(of_int m :: rat) / 2 = of_int (m div 2)"
    proof -
      from True have "m = 2 ^ 53 \<or> m = - (2 ^ 53)" by linarith
      then have "m = 2 * (m div 2)" by auto
      then have "(of_int m :: rat) = 2 * of_int (m div 2)"
        by (metis of_int_mult of_int_numeral)
      then show ?thesis by simp
    qed
    finally have "fl q = of_int (m div 2) * 2 powi (k + 1)" by (simp add: flq)
    also have "\<dots> = (of_int m / 2) * 2 powi (k + 1)"
      using \<open>(of_int m :: rat) / 2 = of_int (m div 2)\<close> by simp
    also have "\<dots> = q" by (simp add: assms(1) power_int_add)
    finally show ?thesis .
  next
    case ne: False
    with assms(2) have lt: "\<bar>m\<bar> < 2 ^ 53" by simp
    then have "\<bar>m\<bar> + 1 \<le> 2 ^ 53" by simp
    have "\<bar>q\<bar> < 2 powi (k + 53)"
    proof -
      have "(of_int \<bar>m\<bar> :: rat) < of_int (2 ^ 53)" using lt by (simp only: of_int_less_iff)
      then have "of_int \<bar>m\<bar> * 2 powi k < of_int (2 ^ 53) * (2::rat) powi k"
        by (intro mult_strict_right_mono) simp_all
      then show ?thesis using \<open>\<bar>q\<bar> = of_int \<bar>m\<bar> * 2 powi k\<close> by (simp add: power_int_add)
    qed
    then have "(2::rat) powi (ilog2 q) < 2 powi (k + 53)"
      using ilog2_bounds(1) [OF False] by linarith
    then have "ilog2 q < k + 53" by (simp add: p2_less_iff)
    then have fe: "fexp q \<le> k" using assms(3) by (simp add: fexp_def)
    define j where "j = nat (k - fexp q)"
    define E where "E = fexp q"
    have flq: "fl q = of_int (round_half_even (q / 2 powi E)) * 2 powi E"
      using False by (simp add: fl_def Let_def E_def)
    have kj: "k = E + int j" using fe by (simp add: j_def E_def)
    have "q / 2 powi E = of_int m * (2 powi k / 2 powi E)" by (simp add: assms(1))
    also have "(2::rat) powi k / 2 powi E = 2 ^ j"
      by (simp add: kj power_int_add)
    finally have "q / 2 powi E = of_int (m * 2 ^ j)" by simp
    then have "fl q = of_int (m * 2 ^ j) * 2 powi E"
      by (simp only: flq rhe_of_int)
    also have "\<dots> = of_int m * 2 powi k" by (simp add: kj power_int_add)
    finally show ?thesis by (simp add: assms(1))
  qed
qed






subsection \<open>Integers and floats\<close>

text \<open>
  A Python number is an unbounded \<open>int\<close> or a \<open>float\<close>. Mixed arithmetic converts
  the integer operand to float first (correctly rounded); comparisons between the two
  kinds compare the exact values, as Python does.
\<close>

datatype pyerror =
    AttributeError | IndexError | KeyError | TypeError | ValueError
  | ZeroDivisionError | StructError | UnicodeDecodeError | UnsupportedFormatChar

datatype pynum = PInt int | PFloat rat

fun to_float :: "pynum \<Rightarrow> rat" where
  "to_float (PInt i) = fl (of_int i)"
| "to_float (PFloat x) = x"

fun num_val :: "pynum \<Rightarrow> rat" where
  "num_val (PInt i) = of_int i"
| "num_val (PFloat x) = x"

fun py_add :: "pynum \<Rightarrow> pynum \<Rightarrow> pynum" where
  "py_add (PInt i) (PInt j) = PInt (i + j)"
| "py_add a b = PFloat (fl (to_float a + to_float b))"

fun py_sub :: "pynum \<Rightarrow> pynum \<Rightarrow> pynum" where
  "py_sub (PInt i) (PInt j) = PInt (i - j)"
| "py_sub a b = PFloat (fl (to_float a - to_float b))"

fun py_mul :: "pynum \<Rightarrow> pynum \<Rightarrow> pynum" where
  "py_mul (PInt i) (PInt j) = PInt (i * j)"
| "py_mul a b = PFloat (fl (to_float a * to_float b))"

definition py_truediv :: "pynum \<Rightarrow> pynum \<Rightarrow> pyerror + pynum" where
  "py_truediv a b =
     (if num_val b = 0 then Inl ZeroDivisionError
      else Inr (PFloat (fl (to_float a / to_float b))))"

definition py_lt :: "pynum \<Rightarrow> pynum \<Rightarrow> bool" where
  "py_lt a b \<longleftrightarrow> num_val a < num_val b"

text \<open>\<open>int(x)\<close> of a float truncates towards zero; \<open>round(x)\<close> rounds half to even.\<close>

definition py_trunc :: "rat \<Rightarrow> int" where
  "py_trunc x = (if 0 \<le> x then \<lfloor>x\<rfloor> else \<lceil>x\<rceil>)"

text \<open>The float literals of the source: each is the binary64 nearest to the decimal.\<close>

definition lit_0_01 :: rat where "lit_0_01 = fl (1 / 100)"
definition lit_1e_7 :: rat where "lit_1e_7 = fl (1 / 10000000)"
definition lit_0_001 :: rat where "lit_0_001 = fl (1 / 1000)"
definition lit_0_000001 :: rat where "lit_0_000001 = fl (1 / 1000000)"

section \<open>Strings and values\<close>

text \<open>
  Python \<open>str\<close> and \<open>bytes\<close> objects are both lists of \<open>char\<close>: a byte, or a
  code point below 256. The codecs and the string conversions of numbers are library
  functions of Python, not code of the reader; they are collected in a record that the
  model takes as a parameter, so every theorem holds for whatever they compute.
\<close>

datatype pyval =
    VInt int | VFloat rat | VBytes string | VStr string | VArr "int list"

datatype pytype = TStr | TInt | TFloat | TArray

record builtins =
  utf8_decode :: "string \<Rightarrow> string option"
  utf8_decode_replace :: "string \<Rightarrow> string"
  int_of_str :: "string \<Rightarrow> int option"
  float_of_str :: "string \<Rightarrow> rat option"
  str_of_val :: "pyval \<Rightarrow> string"
  format_4g :: "rat \<Rightarrow> string"

definition startswith :: "string \<Rightarrow> string \<Rightarrow> bool" where
  "startswith s p \<longleftrightarrow> take (length p) s = p"

fun find_from :: "string \<Rightarrow> string \<Rightarrow> int \<Rightarrow> int" where
  "find_from sub [] i = (if sub = [] then i else - 1)"
| "find_from sub (c # cs) i =
     (if startswith (c # cs) sub then i else find_from sub cs (i + 1))"

definition py_find :: "string \<Rightarrow> string \<Rightarrow> int" where
  "py_find s sub = find_from sub s 0"

function split_aux :: "string \<Rightarrow> string \<Rightarrow> string \<Rightarrow> string list" where
  "split_aux sep acc [] = [rev acc]"
| "split_aux sep acc (c # cs) =
     (if sep \<noteq> [] \<and> startswith (c # cs) sep
      then rev acc # split_aux sep [] (drop (length sep - 1) cs)
      else split_aux sep (c # acc) cs)"
  by pat_completeness auto
termination
  by (relation "measure (\<lambda>(sep, acc, s). length s)") auto

definition py_split :: "string \<Rightarrow> string \<Rightarrow> string list" where
  "py_split s sep = split_aux sep [] s"

definition null_term :: "string \<Rightarrow> string" where
  "null_term s = takeWhile (\<lambda>c. c \<noteq> CHR 0x00) s"

definition null_term_bytes :: "builtins \<Rightarrow> string \<Rightarrow> string" where
  "null_term_bytes B bs = null_term (utf8_decode_replace B bs)"

section \<open>Format records\<close>

text \<open>
  \<open>FORMAT_TO_STRUCT\<close>: for each format character the \<open>struct\<close> code, the scalar
  multiplier and the Python type of the field.
\<close>

definition FORMAT_TO_STRUCT :: "char \<Rightarrow> (string \<times> rat option \<times> pytype) option" where
  "FORMAT_TO_STRUCT c =
     (if c = CHR ''a'' then Some (''64s'', None, TStr)
      else if c = CHR ''b'' then Some (''b'', None, TInt)
      else if c = CHR ''B'' then Some (''B'', None, TInt)
      else if c = CHR ''g'' then Some (''e'', None, TFloat)
      else if c = CHR ''h'' then Some (''h'', None, TInt)
      else if c = CHR ''H'' then Some (''H'', None, TInt)
      else if c = CHR ''i'' then Some (''i'', None, TInt)
      else if c = CHR ''I'' then Some (''I'', None, TInt)
      else if c = CHR ''f'' then Some (''f'', None, TFloat)
      else if c = CHR ''n'' then Some (''4s'', None, TStr)
      else if c = CHR ''N'' then Some (''16s'', None, TStr)
      else if c = CHR ''Z'' then Some (''64s'', None, TStr)
      else if c = CHR ''c'' then Some (''h'', Some lit_0_01, TFloat)
      else if c = CHR ''C'' then Some (''H'', Some lit_0_01, TFloat)
      else if c = CHR ''e'' then Some (''i'', Some lit_0_01, TFloat)
      else if c = CHR ''E'' then Some (''I'', Some lit_0_01, TFloat)
      else if c = CHR ''L'' then Some (''i'', Some lit_1e_7, TFloat)
      else if c = CHR ''d'' then Some (''d'', None, TFloat)
      else if c = CHR ''M'' then Some (''b'', None, TInt)
      else if c = CHR ''q'' then Some (''q'', None, TInt)
      else if c = CHR ''Q'' then Some (''Q'', None, TInt)
      else None)"

text \<open>
  \<open>MULT_TO_PREFIX\<close>, a dictionary keyed by numbers: a float key is found when it is
  equal in value to one of the listed keys. The micro sign is code point \<open>0xB5\<close>.
\<close>

definition MULT_TO_PREFIX :: "rat \<Rightarrow> string option" where
  "MULT_TO_PREFIX x =
     (if x = 0 then Some []
      else if x = 1 then Some []
      else if x = fl (1 / 10) then Some ''d''
      else if x = fl (1 / 100) then Some ''c''
      else if x = fl (1 / 1000) then Some ''m''
      else if x = fl (1 / 1000000) then Some [CHR 0xB5]
      else if x = fl (1 / 1000000000) then Some ''n''
      else None)"

text \<open>
  A \<open>DFFormat\<close> object. The attributes \<open>type\<close>, \<open>name\<close>, \<open>len\<close> and \<open>format\<close>
  are the fields \<open>df_type\<close>, \<open>df_name\<close>, \<open>df_len\<close> and \<open>df_format\<close>; the others
  keep their names. \<open>instance_ofs\<close> and \<open>instance_len\<close> exist only once
  \<open>set_instance_field\<close> has run.
\<close>

record DFFormat =
  df_type :: int
  df_name :: string
  df_len :: int
  df_format :: string
  columns :: "string list"
  instance_field :: "string option"
  units :: "string list option"
  msg_struct :: string
  msg_types :: "pytype list"
  msg_mults :: "rat option list"
  msg_fmts :: "char list"
  colhash :: "string \<rightharpoonup> nat"
  a_indexes :: "nat list"
  instance_ofs :: "nat option"
  instance_len :: "nat option"

text \<open>
  \<open>struct.calcsize\<close> in native mode (no byte-order prefix), as \<open>set_instance_field\<close>
  calls it: every item is aligned to its own size, strings to 1; sizes are those of an
  LP64 platform. \<open>item_of_code\<close> gives size and alignment of a \<open>struct\<close> code.
\<close>

definition item_of_code :: "string \<Rightarrow> (nat \<times> nat) option" where
  "item_of_code s =
     (if s = ''64s'' then Some (64, 1)
      else if s = ''16s'' then Some (16, 1)
      else if s = ''4s'' then Some (4, 1)
      else if s = ''b'' \<or> s = ''B'' \<or> s = ''c'' then Some (1, 1)
      else if s = ''h'' \<or> s = ''H'' \<or> s = ''e'' then Some (2, 2)
      else if s = ''i'' \<or> s = ''I'' \<or> s = ''f'' then Some (4, 4)
      else if s = ''d'' \<or> s = ''q'' \<or> s = ''Q'' \<or> s = ''l'' \<or> s = ''L''
              \<or> s = ''n'' \<or> s = ''N'' then Some (8, 8)
      else None)"

fun calcsize_native :: "nat \<Rightarrow> (nat \<times> nat) list \<Rightarrow> nat" where
  "calcsize_native ofs [] = ofs"
| "calcsize_native ofs ((sz, al) # items) =
     calcsize_native (((ofs + al - 1) div al) * al + sz) items"

fun those_list :: "'a option list \<Rightarrow> 'a list option" where
  "those_list [] = Some []"
| "those_list (None # xs) = None"
| "those_list (Some x # xs) = (case those_list xs of None \<Rightarrow> None | Some ys \<Rightarrow> Some (x # ys))"

definition set_instance_field :: "nat \<Rightarrow> DFFormat \<Rightarrow> pyerror + DFFormat" where
  "set_instance_field instance_idx f =
     (if length (columns f) \<le> instance_idx then Inl IndexError
      else
        let pre_fmt = take instance_idx (df_format f) in
        case those_list (map FORMAT_TO_STRUCT pre_fmt) of
          None \<Rightarrow> Inl KeyError
        | Some tr \<Rightarrow>
           (case those_list (map (\<lambda>(s, mul, ty). item_of_code s) tr) of
              None \<Rightarrow> Inl StructError
            | Some items \<Rightarrow>
               if length (df_format f) \<le> instance_idx then Inl IndexError
               else
                 (case item_of_code [df_format f ! instance_idx] of
                    None \<Rightarrow> Inl StructError
                  | Some (sz, al) \<Rightarrow>
                      Inr (f\<lparr>instance_field := Some (columns f ! instance_idx),
                             instance_ofs := Some (calcsize_native 0 items),
                             instance_len := Some sz\<rparr>))))"

text \<open>The constructor \<open>DFFormat.__init__\<close>.\<close>

fun build_colhash :: "string list \<Rightarrow> nat \<Rightarrow> (string \<rightharpoonup> nat) \<Rightarrow> (string \<rightharpoonup> nat)" where
  "build_colhash [] i h = h"
| "build_colhash (c # cs) i h = build_colhash cs (Suc i) (h(c \<mapsto> i))"

definition DFFormat_init ::
  "int \<Rightarrow> string \<Rightarrow> int \<Rightarrow> string \<Rightarrow> string \<Rightarrow> DFFormat option \<Rightarrow> pyerror + DFFormat" where
  "DFFormat_init tp nm flen fmt cols oldfmt =
     (let cs0 = py_split cols '','';
          cs = (if cs0 = [''''] then [] else cs0)
      in case those_list (map FORMAT_TO_STRUCT fmt) of
           None \<Rightarrow> Inl UnsupportedFormatChar
         | Some tr \<Rightarrow>
            let f = \<lparr>df_type = tp, df_name = null_term nm, df_len = flen, df_format = fmt,
                      columns = cs, instance_field = None, units = None,
                      msg_struct = CHR ''<'' # concat (map fst tr),
                      msg_types = map (\<lambda>(c, s, mul, ty). if c = CHR ''a'' then TArray else ty) (zip fmt tr),
                      msg_mults = map (\<lambda>(s, mul, ty). mul) tr,
                      msg_fmts = fmt,
                      colhash = build_colhash cs 0 Map.empty,
                      a_indexes = filter (\<lambda>i. fmt ! i = CHR ''a'') [0..<length fmt],
                      instance_ofs = None, instance_len = None\<rparr>
            in (case oldfmt of
                  None \<Rightarrow> Inr f
                | Some old \<Rightarrow>
                   (let f1 = f\<lparr>units := units old\<rparr>
                    in (case instance_field old of
                          None \<Rightarrow> Inr f1
                        | Some inst \<Rightarrow>
                           (case colhash f1 inst of
                              None \<Rightarrow> Inl KeyError
                            | Some idx \<Rightarrow> set_instance_field idx f1)))))"

text \<open>\<open>set_unit_ids\<close> and \<open>set_mult_ids\<close>, called when an \<open>FMTU\<close> record is read.\<close>

definition set_unit_ids :: "string option \<Rightarrow> (char \<rightharpoonup> string) \<Rightarrow> DFFormat \<Rightarrow> pyerror + DFFormat" where
  "set_unit_ids unit_ids unit_lookup f =
     (case unit_ids of
        None \<Rightarrow> Inr f
      | Some ids \<Rightarrow>
         let instance_idx = py_find ids ''#'';
             r = (if instance_idx \<noteq> - 1 then set_instance_field (nat instance_idx) f else Inr f)
         in (case r of
               Inl e \<Rightarrow> Inl e
             | Inr f1 \<Rightarrow>
                Inr (f1\<lparr>units := Some (map (\<lambda>i. if i < length ids
                                                   then (case unit_lookup (ids ! i) of
                                                           None \<Rightarrow> [] | Some u \<Rightarrow> u)
                                                   else [])
                                           [0..<length (columns f1)])\<rparr>)))"

fun mult_loop ::
  "builtins \<Rightarrow> string option \<Rightarrow> (char \<rightharpoonup> rat) \<Rightarrow> rat option list \<Rightarrow> nat list \<Rightarrow> string list
     \<Rightarrow> pyerror + string list" where
  "mult_loop B mult_ids mult_lookup mm [] us = Inr us"
| "mult_loop B mult_ids mult_lookup mm (i # rest) us =
     (if length mm \<le> i then Inl IndexError
      else if mm ! i \<noteq> None \<or> us ! i = [] then mult_loop B mult_ids mult_lookup mm rest us
      else
        (case mult_ids of
           None \<Rightarrow> Inl TypeError
         | Some ids \<Rightarrow>
            if length ids \<le> i then Inl IndexError
            else
              (case mult_lookup (ids ! i) of
                 None \<Rightarrow> mult_loop B mult_ids mult_lookup mm rest us
               | Some unitmult \<Rightarrow>
                  mult_loop B mult_ids mult_lookup mm rest
                    (us[i := (case MULT_TO_PREFIX unitmult of
                                Some p \<Rightarrow> p @ us ! i
                              | None \<Rightarrow> format_4g B unitmult @ '' '' @ us ! i)]))))"

definition set_mult_ids ::
  "builtins \<Rightarrow> string option \<Rightarrow> (char \<rightharpoonup> rat) \<Rightarrow> DFFormat \<Rightarrow> pyerror + DFFormat" where
  "set_mult_ids B mult_ids mult_lookup f =
     (case units f of
        None \<Rightarrow> Inl TypeError
      | Some us \<Rightarrow>
         (case mult_loop B mult_ids mult_lookup (msg_mults f) [0..<length us] us of
            Inl e \<Rightarrow> Inl e
          | Inr us' \<Rightarrow> Inr (f\<lparr>units := Some us'\<rparr>)))"

section \<open>Messages\<close>

text \<open>
  A \<open>DFMessage\<close> object: \<open>elements\<close> is \<open>_elements\<close>, \<open>fieldnames\<close> is
  \<open>_fieldnames\<close>, and \<open>m_timestamp\<close> is the attribute \<open>_timestamp\<close>, absent until the
  reader stamps the message.
\<close>

record DFMessage =
  fmt :: DFFormat
  elements :: "pyval list"
  apply_multiplier :: bool
  fieldnames :: "string list"
  m_timestamp :: "pynum option"

definition DFMessage_init :: "DFFormat \<Rightarrow> pyval list \<Rightarrow> bool \<Rightarrow> DFMessage" where
  "DFMessage_init f els ap =
     \<lparr>fmt = f, elements = els, apply_multiplier = ap, fieldnames = columns f,
      m_timestamp = None\<rparr>"

definition get_type :: "DFMessage \<Rightarrow> string" where
  "get_type m = df_name (fmt m)"

fun as_num :: "pyval \<Rightarrow> pynum option" where
  "as_num (VInt i) = Some (PInt i)"
| "as_num (VFloat x) = Some (PFloat x)"
| "as_num v = None"

fun of_num :: "pynum \<Rightarrow> pyval" where
  "of_num (PInt i) = VInt i"
| "of_num (PFloat x) = VFloat x"

text \<open>The call \<open>self.fmt.msg_types[i](v)\<close>: \<open>int(v)\<close>, \<open>float(v)\<close> or \<open>str(v)\<close>.\<close>

fun convert :: "builtins \<Rightarrow> pytype \<Rightarrow> pyval \<Rightarrow> pyerror + pyval" where
  "convert B TInt (VInt i) = Inr (VInt i)"
| "convert B TInt (VFloat x) = Inr (VInt (py_trunc x))"
| "convert B TInt (VStr s) = (case int_of_str B s of None \<Rightarrow> Inl ValueError | Some i \<Rightarrow> Inr (VInt i))"
| "convert B TInt (VBytes s) = (case int_of_str B s of None \<Rightarrow> Inl ValueError | Some i \<Rightarrow> Inr (VInt i))"
| "convert B TInt (VArr a) = Inl TypeError"
| "convert B TFloat (VInt i) = Inr (VFloat (fl (of_int i)))"
| "convert B TFloat (VFloat x) = Inr (VFloat x)"
| "convert B TFloat (VStr s) = (case float_of_str B s of None \<Rightarrow> Inl ValueError | Some x \<Rightarrow> Inr (VFloat x))"
| "convert B TFloat (VBytes s) = (case float_of_str B s of None \<Rightarrow> Inl ValueError | Some x \<Rightarrow> Inr (VFloat x))"
| "convert B TFloat (VArr a) = Inl TypeError"
| "convert B TStr (VStr s) = Inr (VStr s)"
| "convert B TStr v = Inr (VStr (str_of_val B v))"
| "convert B TArray v = Inl TypeError"

fun null_term_val :: "builtins \<Rightarrow> pyval \<Rightarrow> pyerror + pyval" where
  "null_term_val B (VStr s) = Inr (VStr (null_term s))"
| "null_term_val B (VBytes s) = Inr (VStr (null_term_bytes B s))"
| "null_term_val B v = Inl AttributeError"

text \<open>
  The scaling step of \<open>__getattr__\<close>: division by the reciprocal when the multiplier
  lies strictly between 0 and 1, multiplication otherwise.
\<close>

definition apply_mult :: "rat \<Rightarrow> pyval \<Rightarrow> pyerror + pyval" where
  "apply_mult mul v =
     (case as_num v of
        None \<Rightarrow> Inl TypeError
      | Some n \<Rightarrow>
         if 0 < mul \<and> mul < 1
         then (case py_truediv n (PFloat (fl (1 / mul))) of
                 Inl e \<Rightarrow> Inl e
               | Inr r \<Rightarrow> Inr (of_num r))
         else Inr (of_num (py_mul n (PFloat mul))))"

definition decode_element :: "builtins \<Rightarrow> pyval \<Rightarrow> pyval" where
  "decode_element B v =
     (case v of
        VBytes b \<Rightarrow> VStr (case utf8_decode B b of None \<Rightarrow> b | Some s \<Rightarrow> s)
      | _ \<Rightarrow> v)"

definition getattr :: "builtins \<Rightarrow> DFMessage \<Rightarrow> string \<Rightarrow> pyerror + pyval" where
  "getattr B m field =
     (let f = fmt m; els = elements m in
      case colhash f field of
        None \<Rightarrow> Inl AttributeError
      | Some i \<Rightarrow>
         if length (msg_fmts f) \<le> i then Inl IndexError
         else if msg_fmts f ! i = CHR ''Z'' \<and> df_name f = ''FILE''
         then (if length els \<le> i then Inl IndexError else Inr (els ! i))
         else if length els \<le> i then Inl IndexError
         else if length (df_format f) \<le> i then Inl IndexError
         else
           (let v0 = decode_element B (els ! i);
                r1 = (if df_format f ! i = CHR ''a'' then Inr v0
                      else if df_format f ! i \<noteq> CHR ''M'' \<or> apply_multiplier m
                      then (if length (msg_types f) \<le> i then Inl IndexError
                            else convert B (msg_types f ! i) v0)
                      else Inr v0)
            in (case r1 of
                  Inl e \<Rightarrow> Inl e
                | Inr v1 \<Rightarrow>
                   if length (msg_types f) \<le> i then Inl IndexError
                   else
                     (let r2 = (if msg_types f ! i = TStr then null_term_val B v1 else Inr v1)
                      in (case r2 of
                            Inl e \<Rightarrow> Inl e
                          | Inr v2 \<Rightarrow>
                             if length (msg_mults f) \<le> i then Inl IndexError
                             else
                               (case msg_mults f ! i of
                                  None \<Rightarrow> Inr v2
                                | Some mul \<Rightarrow>
                                   if apply_multiplier m then apply_mult mul v2 else Inr v2))))))"

section \<open>Clocks\<close>

text \<open>
  \<open>DFReaderClock\<close> and its subclass \<open>DFReaderClock_usec\<close>. The attributes
  \<open>timebase\<close> and \<open>timestamp\<close> are \<open>clk_timebase\<close> and \<open>clk_timestamp\<close>.
\<close>

record clock_usec =
  clk_timebase :: pynum
  clk_timestamp :: pynum
  first_us_stamp :: "pyval option"

definition clock_usec_init :: clock_usec where
  "clock_usec_init = \<lparr>clk_timebase = PInt 0, clk_timestamp = PInt 0, first_us_stamp = None\<rparr>"

definition gps_epoch :: int where
  "gps_epoch = 86400 * (10 * 365 + py_trunc (fl (of_int (1980 - 1969) / of_int 4)) + 1 + 6 - 2)"

definition gpsTimeToTime :: "pynum \<Rightarrow> pynum \<Rightarrow> pynum" where
  "gpsTimeToTime week msec =
     py_sub (py_add (py_add (PInt gps_epoch) (py_mul (PInt (86400 * 7)) week))
                    (py_mul msec (PFloat lit_0_001)))
            (PInt 18)"

definition num_attr :: "builtins \<Rightarrow> DFMessage \<Rightarrow> string \<Rightarrow> pyerror + pynum" where
  "num_attr B m field =
     (case getattr B m field of
        Inl e \<Rightarrow> Inl e
      | Inr v \<Rightarrow> (case as_num v of None \<Rightarrow> Inl TypeError | Some n \<Rightarrow> Inr n))"

definition find_time_base ::
  "builtins \<Rightarrow> DFMessage \<Rightarrow> pyval option \<Rightarrow> clock_usec \<Rightarrow> pyerror + clock_usec" where
  "find_time_base B gps first_us clk =
     (case num_attr B gps ''GWk'' of
        Inl e \<Rightarrow> Inl e
      | Inr wk \<Rightarrow>
         (case num_attr B gps ''GMS'' of
            Inl e \<Rightarrow> Inl e
          | Inr ms \<Rightarrow>
             (case num_attr B gps ''TimeUS'' of
                Inl e \<Rightarrow> Inl e
              | Inr us \<Rightarrow>
                 Inr (clk\<lparr>clk_timebase :=
                            py_sub (gpsTimeToTime wk ms) (py_mul us (PFloat lit_0_000001)),
                          first_us_stamp := first_us\<rparr>))))"


definition type_has_good_TimeMS :: "string \<Rightarrow> bool" where
  "type_has_good_TimeMS ty =
     (if startswith ty ''ACC'' then False
      else if startswith ty ''GYR'' then False
      else True)"

definition should_use_msec_field0 :: "builtins \<Rightarrow> clock_usec \<Rightarrow> DFMessage \<Rightarrow> pyerror + bool" where
  "should_use_msec_field0 B clk m =
     (if \<not> type_has_good_TimeMS (get_type m) then Inr False
      else
        (case fieldnames m of
           [] \<Rightarrow> Inl IndexError
         | f0 # fs \<Rightarrow>
            if ''TimeMS'' \<noteq> f0 then Inr False
            else
              (case num_attr B m ''TimeMS'' of
                 Inl e \<Rightarrow> Inl e
               | Inr ms \<Rightarrow>
                  if py_lt (py_add (clk_timebase clk) (py_mul ms (PFloat lit_0_001)))
                           (clk_timestamp clk)
                  then Inr False
                  else Inr True)))"

definition stamp :: "DFMessage \<Rightarrow> clock_usec \<Rightarrow> pynum \<Rightarrow> DFMessage \<times> clock_usec" where
  "stamp m clk t = (m\<lparr>m_timestamp := Some t\<rparr>, clk\<lparr>clk_timestamp := t\<rparr>)"

definition set_message_timestamp ::
  "builtins \<Rightarrow> clock_usec \<Rightarrow> DFMessage \<Rightarrow> pyerror + (DFMessage \<times> clock_usec)" where
  "set_message_timestamp B clk m =
     (case fieldnames m of
        [] \<Rightarrow> Inl IndexError
      | f0 # fs \<Rightarrow>
         if ''TimeUS'' = f0
         then (case num_attr B m ''TimeUS'' of
                 Inl e \<Rightarrow> Inl e
               | Inr us \<Rightarrow>
                  Inr (stamp m clk (py_add (clk_timebase clk) (py_mul us (PFloat lit_0_000001)))))
         else
           (case should_use_msec_field0 B clk m of
              Inl e \<Rightarrow> Inl e
            | Inr True \<Rightarrow>
               (case num_attr B m ''TimeMS'' of
                  Inl e \<Rightarrow> Inl e
                | Inr ms \<Rightarrow>
                   Inr (stamp m clk (py_add (clk_timebase clk) (py_mul ms (PFloat lit_0_001)))))
            | Inr False \<Rightarrow> Inr (stamp m clk (clk_timestamp clk))))"



subsection \<open>A small instance of the library functions\<close>

text \<open>
  ASCII text and plain decimal numerals; used where a concrete example is evaluated.
\<close>

definition is_ascii :: "string \<Rightarrow> bool" where
  "is_ascii s = list_all (\<lambda>c. (of_char c :: nat) < 128) s"

fun digits_val :: "string \<Rightarrow> int \<Rightarrow> int option" where
  "digits_val [] acc = Some acc"
| "digits_val (c # cs) acc =
     (let d = (of_char c :: int) - 48
      in if 0 \<le> d \<and> d \<le> 9 then digits_val cs (10 * acc + d) else None)"

definition simple_int_of_str :: "string \<Rightarrow> int option" where
  "simple_int_of_str s =
     (case s of
        [] \<Rightarrow> None
      | c # cs \<Rightarrow>
         if c = CHR ''-'' then (if cs = [] then None else map_option uminus (digits_val cs 0))
         else digits_val s 0)"

definition simple_float_of_str :: "string \<Rightarrow> rat option" where
  "simple_float_of_str s =
     (let neg = (take 1 s = ''-'');
          body = (if neg then drop 1 s else s);
          ip = takeWhile (\<lambda>c. c \<noteq> CHR ''.'') body;
          fp = drop 1 (dropWhile (\<lambda>c. c \<noteq> CHR ''.'') body)
      in if ip = [] \<and> fp = [] then None
         else
           (case digits_val (ip @ fp) 0 of
              None \<Rightarrow> None
            | Some n \<Rightarrow>
               Some (fl ((if neg then - 1 else 1) * of_int n / 10 ^ length fp))))"

definition simple_builtins :: builtins where
  "simple_builtins =
     \<lparr>utf8_decode = (\<lambda>b. if is_ascii b then Some b else None),
      utf8_decode_replace = (\<lambda>b. b),
      int_of_str = simple_int_of_str,
      float_of_str = simple_float_of_str,
      str_of_val = (\<lambda>v. ''?''),
      format_4g = (\<lambda>x. ''?'')\<rparr>"

subsection \<open>Decoded messages for the examples\<close>

text \<open>
  A message as the binary parser builds it: the format comes from the constructor, the
  multiplier flag is set.
\<close>

definition decoded ::
  "int \<Rightarrow> string \<Rightarrow> int \<Rightarrow> string \<Rightarrow> string \<Rightarrow> pyval list \<Rightarrow> pyerror + DFMessage" where
  "decoded tp nm flen fm cols els =
     (case DFFormat_init tp nm flen fm cols None of
        Inl e \<Rightarrow> Inl e
      | Inr f \<Rightarrow> Inr (DFMessage_init f els True))"

text \<open>
  The scenario of a log with one \<open>GPS\<close> record (\<open>TimeUS=1000000, GWk=2200,
  GMS=100000\<close>) followed by an \<open>ATT\<close> record with \<open>TimeUS=2000000\<close>: the time base is
  found from the GPS record, then the ATT message is stamped. The result holds the clock
  after \<open>find_time_base\<close>, the stamped message and the clock after stamping.
\<close>

definition scenario_clock_usec ::
  "builtins \<Rightarrow> pyerror + (clock_usec \<times> DFMessage \<times> clock_usec)" where
  "scenario_clock_usec B =
     (case decoded 130 ''GPS'' 17 ''QHI'' ''TimeUS,GWk,GMS''
             [VInt 1000000, VInt 2200, VInt 100000] of
        Inl e \<Rightarrow> Inl e
      | Inr gps \<Rightarrow>
         (case find_time_base B gps (Some (VInt 1000000)) clock_usec_init of
            Inl e \<Rightarrow> Inl e
          | Inr clk \<Rightarrow>
             (case decoded 131 ''ATT'' 13 ''Qc'' ''TimeUS,Roll'' [VInt 2000000, VInt 150] of
                Inl e \<Rightarrow> Inl e
              | Inr att \<Rightarrow>
                 (case set_message_timestamp B clk att of
                    Inl e \<Rightarrow> Inl e
                  | Inr (att', clk') \<Rightarrow> Inr (clk, att', clk')))))"

section \<open>The GPS time conversion and the microsecond clock\<close>

lemma gps_epoch_value: "gps_epoch = 315964800"
  by code_simp

lemma scenario_clock_usec_eval:
  "(case scenario_clock_usec B of
      Inl e \<Rightarrow> False
    | Inr (clk, att', clk') \<Rightarrow>
        clk_timebase clk = py_sub (gpsTimeToTime (PInt 2200) (PInt 100000)) (PFloat 1)
        \<and> m_timestamp att' = Some (py_add (clk_timebase clk) (PFloat 2))
        \<and> clk_timestamp clk' = py_add (clk_timebase clk) (PFloat 2))"
  by code_simp

text \<open>
  Claim C3. For every GPS week \<open>w\<close> and millisecond count \<open>ms\<close> the conversion
  \<open>_gpsTimeToTime\<close> returns \<open>315964800 + 604800 * w + ms * 0.001 - 18\<close>, computed in
  Python arithmetic from left to right. In the scenario of a log whose first GPS record
  has \<open>TimeUS=1000000, GWk=2200, GMS=100000\<close>, the time base found is the conversion of
  \<open>(2200, 100000)\<close> minus \<open>1.0\<close>, and the following ATT message with
  \<open>TimeUS=2000000\<close> is stamped time base plus \<open>2.0\<close>, which is also the clock's
  running timestamp afterwards.
\<close>

theorem gps_time_and_usec_scenario:
  "gpsTimeToTime w ms =
     py_sub (py_add (py_add (PInt 315964800) (py_mul (PInt 604800) w))
                    (py_mul ms (PFloat lit_0_001)))
            (PInt 18)
   \<and> (case scenario_clock_usec B of
          Inl e \<Rightarrow> False
        | Inr (clk, att', clk') \<Rightarrow>
            clk_timebase clk = py_sub (gpsTimeToTime (PInt 2200) (PInt 100000)) (PFloat 1)
            \<and> m_timestamp att' = Some (py_add (clk_timebase clk) (PFloat 2))
            \<and> clk_timestamp clk' = py_add (clk_timebase clk) (PFloat 2))"
proof
  show "gpsTimeToTime w ms =
     py_sub (py_add (py_add (PInt 315964800) (py_mul (PInt 604800) w))
                    (py_mul ms (PFloat lit_0_001)))
            (PInt 18)"
    by (simp add: gpsTimeToTime_def gps_epoch_value)
  show "(case scenario_clock_usec B of
          Inl e \<Rightarrow> False
        | Inr (clk, att', clk') \<Rightarrow>
            clk_timebase clk = py_sub (gpsTimeToTime (PInt 2200) (PInt 100000)) (PFloat 1)
            \<and> m_timestamp att' = Some (py_add (clk_timebase clk) (PFloat 2))
            \<and> clk_timestamp clk' = py_add (clk_timebase clk) (PFloat 2))"
    by (rule scenario_clock_usec_eval)
qed

lemma gps_rhs_value:
  "py_sub (py_add (py_add (PInt 315964800) (py_mul (PInt 604800) (PInt 2200)))
                    (py_mul (PInt 100000) (PFloat lit_0_001)))
            (PInt 18) = PFloat 1646524882"
  by code_simp

theorem gps_time_and_usec_scenario_witness:
  "gpsTimeToTime (PInt 2200) (PInt 100000) = PFloat 1646524882
   \<and> (case scenario_clock_usec simple_builtins of
          Inl e \<Rightarrow> False
        | Inr (clk, att', clk') \<Rightarrow>
            clk_timebase clk = py_sub (PFloat 1646524882) (PFloat 1)
            \<and> m_timestamp att' = Some (py_add (clk_timebase clk) (PFloat 2))
            \<and> clk_timestamp clk' = py_add (clk_timebase clk) (PFloat 2))"
proof -
  note t = gps_time_and_usec_scenario [of "PInt 2200" "PInt 100000" simple_builtins]
  from t have a: "gpsTimeToTime (PInt 2200) (PInt 100000) = PFloat 1646524882"
    by (simp only: gps_rhs_value)
  from t have b: "(case scenario_clock_usec simple_builtins of
          Inl e \<Rightarrow> False
        | Inr (clk, att', clk') \<Rightarrow>
            clk_timebase clk = py_sub (gpsTimeToTime (PInt 2200) (PInt 100000)) (PFloat 1)
            \<and> m_timestamp att' = Some (py_add (clk_timebase clk) (PFloat 2))
            \<and> clk_timestamp clk' = py_add (clk_timebase clk) (PFloat 2))"
    by (rule conjunct2)
  from b have b': "(case scenario_clock_usec simple_builtins of
          Inl e \<Rightarrow> False
        | Inr (clk, att', clk') \<Rightarrow>
            clk_timebase clk = py_sub (PFloat 1646524882) (PFloat 1)
            \<and> m_timestamp att' = Some (py_add (clk_timebase clk) (PFloat 2))
            \<and> clk_timestamp clk' = py_add (clk_timebase clk) (PFloat 2))"
    by (simp only: a)
  from a b' show ?thesis by (rule conjI)
qed











subsection \<open>Monotonicity of the microsecond clock\<close>




















section \<open>Readers\<close>

text \<open>
  The state of the base class \<open>DFReader\<close>: the clock (the microsecond clock, or none),
  the vehicle type, the parameters, the memoized flight mode list \<open>_flightmodes\<close>
  (field \<open>flightmodes\<close>), the current flight mode, the last message of each type and
  the progress. A flight mode entry is a triple of mode, start and end; the end is
  \<open>None\<close> until the entry is closed.
\<close>

type_synonym mode_entry = "string \<times> pynum \<times> pynum option"

record DFReader =
  clock :: "clock_usec option"
  mav_type :: int
  params :: "string \<rightharpoonup> pyval"
  flightmodes :: "mode_entry list option"
  flightmode :: string
  messages :: "string \<rightharpoonup> DFMessage"
  percent :: pynum


subsection \<open>The binary reader: index and cursor\<close>

text \<open>
  \<open>DFReader_binary\<close> adds the file, the cursor (\<open>offset\<close>, \<open>remaining\<close>), the format
  registry and the index built by \<open>init_arrays\<close>: per type id the list of record
  offsets and their count, the map from names to ids, and the state of
  \<open>skip_to_type\<close> (\<open>type_nums\<close>, \<open>indexes\<close>). \<open>diagnostics\<close> collects what is printed
  to \<open>stderr\<close>. A Python \<open>set\<close> of type names is a list without repetitions, in the
  order the set is iterated.
\<close>

datatype diagnostic =
    Skipped nat nat "nat \<times> nat \<times> nat" "nat option"
  | OutOfData
  | FailedToParse string

record DFReader_binary = DFReader +
  data_map :: string
  data_len :: nat
  offset :: nat
  remaining :: int
  rd_timestamp :: pynum
  verbose :: bool
  formats :: "nat \<rightharpoonup> DFFormat"
  unpackers :: "nat \<rightharpoonup> string"
  prev_type :: "nat option"
  unit_lookup :: "char \<rightharpoonup> string"
  mult_lookup :: "char \<rightharpoonup> rat"
  name_to_id :: "string \<rightharpoonup> nat"
  counts :: "nat list"
  offsets :: "nat list list"
  type_nums :: "nat list option"
  indexes :: "nat list"
  diagnostics :: "diagnostic list"

definition key_types :: "string list" where
  "key_types = [''MODE'', ''MSG'', ''PARM'', ''STAT'', ''ORGN'', ''VER'']"

definition set_update :: "string list \<Rightarrow> string list \<Rightarrow> string list" where
  "set_update s extra = s @ filter (\<lambda>t. t \<notin> set s) (remdups extra)"



definition init_type_nums :: "string list \<Rightarrow> bool \<Rightarrow> DFReader_binary \<Rightarrow> DFReader_binary" where
  "init_type_nums ty strict r =
     (case type_nums r of
        Some tn \<Rightarrow> r
      | None \<Rightarrow>
         (let ty1 = (if \<not> strict then set_update ty key_types else ty);
              nums = List.map_filter (name_to_id r) ty1
          in r\<lparr>indexes := map (\<lambda>n. 0) nums, type_nums := Some nums\<rparr>))"


subsection \<open>The text reader: index and cursor\<close>






subsection \<open>The type set of \<open>skip_to_type\<close>\<close>







lemma init_type_nums_fields [simp]:
  "counts (init_type_nums ty strict r) = counts r"
  "offsets (init_type_nums ty strict r) = offsets r"
  "data_len (init_type_nums ty strict r) = data_len r"
  "name_to_id (init_type_nums ty strict r) = name_to_id r"
  by (auto simp add: init_type_nums_def Let_def split: option.splits)






















end
